theory Spec2Isabelle
  imports Main
begin

section \<open>TorchToONNX-FaaS: argument parsing, dynamic loading, export and the handler\<close>

text \<open>
  The development follows the two modules of the function: \<^verbatim>\<open>utils.py\<close>
  (\<^verbatim>\<open>parse_dynamic_args\<close>, \<^verbatim>\<open>load_class_from_file\<close>) and \<^verbatim>\<open>handler.py\<close>
  (\<^verbatim>\<open>handle\<close>, \<^verbatim>\<open>execute\<close>, \<^verbatim>\<open>export_onnx\<close>, \<^verbatim>\<open>ensure_single_file_onnx\<close>).
  A Python \<^verbatim>\<open>str\<close> is a \<^typ>\<open>string\<close> whose characters are read as the code points
  below 256; a raised exception is the \<open>Inl\<close> side of a sum, a returned value the \<open>Inr\<close> side.
\<close>

subsection \<open>Exceptions\<close>

text \<open>
  The exception classes the two modules raise or catch, each with its message.
  \<open>JSONDecodeError\<close> is the class \<^verbatim>\<open>json.JSONDecodeError\<close>, \<open>S3Error\<close> is
  \<^verbatim>\<open>minio.error.S3Error\<close>, and \<open>LibError\<close> stands for any other subclass of
  \<^verbatim>\<open>Exception\<close> raised inside a library call (torch, onnx, minio).
\<close>

datatype exn =
    ValueError string
  | KeyError string
  | TypeError string
  | AttributeError string
  | FileNotFoundError string
  | ImportError string
  | ConnectionError string
  | JSONDecodeError string
  | S3Error string
  | LibError string

type_synonym 'a result = "exn + 'a"

subsection \<open>String operations of Python used by the code\<close>

definition is_decimal :: "char \<Rightarrow> bool" where
  "is_decimal c = (c \<in> set ''0123456789'')"

text \<open>
  \<^verbatim>\<open>str.isdigit\<close> accepts, besides the decimal digits, the characters whose Unicode
  property is Numeric_Type=Digit; below code point 256 these are the superscripts
  U+00B2, U+00B3 and U+00B9.
\<close>

definition is_digit_char :: "char \<Rightarrow> bool" where
  "is_digit_char c = (is_decimal c \<or> c = CHR 0xB2 \<or> c = CHR 0xB3 \<or> c = CHR 0xB9)"

definition isdigit :: "string \<Rightarrow> bool" where
  "isdigit s = (s \<noteq> [] \<and> list_all is_digit_char s)"

text \<open>The characters \<^verbatim>\<open>str.strip()\<close> removes (\<^verbatim>\<open>str.isspace\<close>) below code point 256.\<close>

definition is_space :: "char \<Rightarrow> bool" where
  "is_space c = (c \<in> {CHR 0x09, CHR 0x0A, CHR 0x0B, CHR 0x0C, CHR 0x0D,
                       CHR 0x1C, CHR 0x1D, CHR 0x1E, CHR 0x1F, CHR 0x20, CHR 0x85, CHR 0xA0})"

definition strip :: "string \<Rightarrow> string" where
  "strip s = rev (dropWhile is_space (rev (dropWhile is_space s)))"

definition digit_val :: "char \<Rightarrow> nat" where
  "digit_val c = of_char c - 48"

definition decimal_value :: "string \<Rightarrow> nat" where
  "decimal_value s = foldl (\<lambda>n c. 10 * n + digit_val c) 0 s"

text \<open>
  \<^verbatim>\<open>int(value)\<close> on a string for which \<^verbatim>\<open>isdigit()\<close> holds: the literal is accepted
  exactly when every character is a decimal digit; a superscript digit raises
  \<^verbatim>\<open>ValueError\<close>. (The interpreter's configurable limit on the length of a decimal
  literal is not part of the model: integers are unbounded.)
\<close>

definition py_int :: "string \<Rightarrow> int result" where
  "py_int s =
     (if s \<noteq> [] \<and> list_all is_decimal s then Inr (int (decimal_value s))
      else Inl (ValueError (''invalid literal for int() with base 10: '' @ [CHR 0x27] @ s @ [CHR 0x27])))"

subsection \<open>Floating-point literals\<close>

text \<open>
  The result of \<^verbatim>\<open>float(value)\<close> is kept as the decimal the literal denotes:
  \<open>FDec neg m e\<close> is the double nearest to \<open>(-1)^neg * m * 10^e\<close>; the rounding itself is
  not modelled. \<open>FInf\<close> and \<open>FNan\<close> are the literals \<^verbatim>\<open>inf\<close>/\<^verbatim>\<open>infinity\<close> and \<^verbatim>\<open>nan\<close>.
\<close>

datatype pyfloat = FDec bool nat int | FInf bool | FNan

definition lower_char :: "char \<Rightarrow> char" where
  "lower_char c = (let n = (of_char c :: nat) in if 65 \<le> n \<and> n \<le> 90 then char_of (n + 32) else c)"

text \<open>
  An underscore of a float literal must stand between two digits
  (the scan of \<^verbatim>\<open>_Py_string_to_number_with_underscores\<close>, with \<open>prev\<close> the previous character).
\<close>

fun underscores_ok :: "char \<Rightarrow> string \<Rightarrow> bool" where
  "underscores_ok prev [] = (prev \<noteq> CHR ''_'')"
| "underscores_ok prev (c # cs) =
     (if c = CHR ''_'' then is_decimal prev \<and> underscores_ok c cs
      else (prev = CHR ''_'' \<longrightarrow> is_decimal c) \<and> underscores_ok c cs)"

definition take_sign :: "string \<Rightarrow> bool \<times> string" where
  "take_sign s = (case s of [] \<Rightarrow> (False, [])
      | c # cs \<Rightarrow> if c = CHR ''-'' then (True, cs) else if c = CHR ''+'' then (False, cs) else (False, s))"

definition parse_exponent :: "string \<Rightarrow> int option" where
  "parse_exponent r =
     (case r of [] \<Rightarrow> Some 0
      | c # cs \<Rightarrow>
          if c = CHR ''e'' \<or> c = CHR ''E'' then
            (let (neg, ds) = take_sign cs in
             if ds \<noteq> [] \<and> list_all is_decimal ds
             then Some (if neg then - int (decimal_value ds) else int (decimal_value ds))
             else None)
          else None)"

definition parse_float :: "string \<Rightarrow> pyfloat option" where
  "parse_float t =
     (let (neg, r) = take_sign t; low = map lower_char r in
      if low = ''inf'' \<or> low = ''infinity'' then Some (FInf neg)
      else if low = ''nan'' then Some FNan
      else
        let ip = takeWhile is_decimal r; r1 = dropWhile is_decimal r;
            fp = (case r1 of [] \<Rightarrow> [] | c # cs \<Rightarrow> if c = CHR ''.'' then takeWhile is_decimal cs else []);
            r2 = (case r1 of [] \<Rightarrow> [] | c # cs \<Rightarrow> if c = CHR ''.'' then dropWhile is_decimal cs else r1)
        in if ip = [] \<and> fp = [] then None
           else (case parse_exponent r2 of
                   None \<Rightarrow> None
                 | Some e \<Rightarrow> Some (FDec neg (decimal_value (ip @ fp)) (e - int (length fp)))))"

definition py_float :: "string \<Rightarrow> pyfloat option" where
  "py_float s =
     (if CHR ''_'' \<in> set s
      then (if underscores_ok (CHR 0x00) s then parse_float (filter (\<lambda>c. c \<noteq> CHR ''_'') s) else None)
      else parse_float s)"

subsection \<open>\<^verbatim>\<open>shlex.split\<close>\<close>

text \<open>
  \<^verbatim>\<open>shlex.split(args)\<close> runs the lexer in POSIX mode with \<^verbatim>\<open>whitespace_split\<close> set and
  no comment characters. \<open>read_token\<close> is the lexer's loop: \<open>st\<close> is \<^verbatim>\<open>self.state\<close>,
  \<open>est\<close> is \<^verbatim>\<open>escapedstate\<close>, \<open>tok\<close> is \<^verbatim>\<open>self.token\<close>; the input left is returned with
  the token, \<open>None\<close> once the end of the input has been read (\<^verbatim>\<open>self.state = None\<close>).
\<close>

datatype lex_state = InSpace | InWord | InQuote char | InEscape char

definition shlex_whitespace :: "char \<Rightarrow> bool" where
  "shlex_whitespace c = (c \<in> set [CHR '' '', CHR 0x09, CHR 0x0D, CHR 0x0A])"

definition shlex_quote :: "char \<Rightarrow> bool" where
  "shlex_quote c = (c = CHR 0x27 \<or> c = CHR 0x22)"

definition shlex_escape :: "char \<Rightarrow> bool" where
  "shlex_escape c = (c = CHR 0x5C)"

definition emit :: "string \<Rightarrow> bool \<Rightarrow> string option" where
  "emit tok quoted = (if \<not> quoted \<and> tok = [] then None else Some tok)"

fun read_token :: "lex_state \<Rightarrow> lex_state \<Rightarrow> string \<Rightarrow> bool \<Rightarrow> string
                    \<Rightarrow> (string option \<times> string option) result" where
  "read_token InSpace est tok quoted [] = Inr (emit tok quoted, None)"
| "read_token InSpace est tok quoted (c # cs) =
     (if shlex_whitespace c then
        (if tok \<noteq> [] \<or> quoted then Inr (emit tok quoted, Some cs)
         else read_token InSpace est tok quoted cs)
      else if shlex_escape c then read_token (InEscape c) InWord tok quoted cs
      else if shlex_quote c then read_token (InQuote c) est tok quoted cs
      else read_token InWord est [c] quoted cs)"
| "read_token (InQuote q) est tok quoted [] = Inl (ValueError ''No closing quotation'')"
| "read_token (InQuote q) est tok quoted (c # cs) =
     (if c = q then read_token InWord est tok True cs
      else if shlex_escape c \<and> q = CHR 0x22 then read_token (InEscape c) (InQuote q) tok True cs
      else read_token (InQuote q) est (tok @ [c]) True cs)"
| "read_token (InEscape e) est tok quoted [] = Inl (ValueError ''No escaped character'')"
| "read_token (InEscape e) est tok quoted (c # cs) =
     (let tok' = (case est of
                    InQuote q \<Rightarrow> if c \<noteq> e \<and> c \<noteq> q then tok @ [e] else tok
                  | _ \<Rightarrow> tok)
      in read_token est est (tok' @ [c]) quoted cs)"
| "read_token InWord est tok quoted [] = Inr (emit tok quoted, None)"
| "read_token InWord est tok quoted (c # cs) =
     (if shlex_whitespace c then
        (if tok \<noteq> [] \<or> quoted then Inr (emit tok quoted, Some cs)
         else read_token InSpace est tok quoted cs)
      else if shlex_quote c then read_token (InQuote c) est tok quoted cs
      else if shlex_escape c then read_token (InEscape c) InWord tok quoted cs
      else read_token InWord est (tok @ [c]) quoted cs)"

lemma read_token_shorter:
  "read_token st est tok quoted inp = Inr (r, Some rest) \<Longrightarrow> length rest < length inp"
  by (induction st est tok quoted inp rule: read_token.induct)
     (auto split: if_splits simp: Let_def)

text \<open>
  Iterating the lexer: tokens are collected until \<open>read_token\<close> returns \<^verbatim>\<open>None\<close>
  (the lexer's \<^verbatim>\<open>eof\<close>). Every call starts in the whitespace state with an empty token.
\<close>

function shlex_tokens :: "string \<Rightarrow> string list result" where
  "shlex_tokens inp =
     (case read_token InSpace InSpace [] False inp of
        Inl e \<Rightarrow> Inl e
      | Inr (None, _) \<Rightarrow> Inr []
      | Inr (Some t, None) \<Rightarrow> Inr [t]
      | Inr (Some t, Some rest) \<Rightarrow>
          (case shlex_tokens rest of Inl e \<Rightarrow> Inl e | Inr ts \<Rightarrow> Inr (t # ts)))"
  by pat_completeness auto
termination
  by (relation "measure length") (auto dest: read_token_shorter)

definition shlex_split :: "string \<Rightarrow> string list result" where
  "shlex_split s = shlex_tokens s"

subsection \<open>\<^verbatim>\<open>parse_dynamic_args\<close> (utils.py)\<close>

text \<open>
  The values of the returned dictionary. A Python \<^verbatim>\<open>dict\<close> is an association list in
  insertion order: \<open>dict_set\<close> is the assignment \<^verbatim>\<open>d[k] = v\<close>, which replaces the value
  of a key already present and appends a new key otherwise.
\<close>

datatype pyval = PyInt int | PyFloat pyfloat | PyStr string

fun dict_set :: "'k \<Rightarrow> 'v \<Rightarrow> ('k \<times> 'v) list \<Rightarrow> ('k \<times> 'v) list" where
  "dict_set k v [] = [(k, v)]"
| "dict_set k v (p # d) = (if fst p = k then (k, v) # d else p # dict_set k v d)"

text \<open>\<^verbatim>\<open>key, value = arg.split("=", 1)\<close>, for an \<open>arg\<close> that contains \<^verbatim>\<open>=\<close>.\<close>

definition arg_key :: "string \<Rightarrow> string" where
  "arg_key arg = strip (takeWhile (\<lambda>c. c \<noteq> CHR ''='') arg)"

definition arg_value :: "string \<Rightarrow> string" where
  "arg_value arg = strip (drop 1 (dropWhile (\<lambda>c. c \<noteq> CHR ''='') arg))"

definition has_eq :: "string \<Rightarrow> bool" where
  "has_eq arg = (CHR ''='' \<in> set arg)"

definition format_error :: "string \<Rightarrow> exn" where
  "format_error arg =
     ValueError (''Invalid argument format: '' @ [CHR 0x27] @ arg @ [CHR 0x27]
                 @ ''. Expected '' @ [CHR 0x27] @ ''key=value'' @ [CHR 0x27] @ ''.'')"

text \<open>The first loop: every token is stored under its stripped key, or the loop raises.\<close>

fun collect_args :: "string list \<Rightarrow> (string \<times> string) list \<Rightarrow> (string \<times> string) list result" where
  "collect_args [] d = Inr d"
| "collect_args (arg # rest) d =
     (if has_eq arg then collect_args rest (dict_set (arg_key arg) (arg_value arg) d)
      else Inl (format_error arg))"

text \<open>The body of the second loop, for one value.\<close>

definition coerce_value :: "string \<Rightarrow> pyval result" where
  "coerce_value v =
     (if isdigit v then (case py_int v of Inl e \<Rightarrow> Inl e | Inr n \<Rightarrow> Inr (PyInt n))
      else (case py_float v of Some f \<Rightarrow> Inr (PyFloat f) | None \<Rightarrow> Inr (PyStr v)))"

text \<open>The second loop, over the items of the dictionary in order.\<close>

fun convert_values :: "(string \<times> string) list \<Rightarrow> (string \<times> pyval) list result" where
  "convert_values [] = Inr []"
| "convert_values ((k, v) # d) =
     (case coerce_value v of
        Inl e \<Rightarrow> Inl e
      | Inr pv \<Rightarrow> (case convert_values d of Inl e \<Rightarrow> Inl e | Inr d' \<Rightarrow> Inr ((k, pv) # d')))"

text \<open>
  The function: the outer \<^verbatim>\<open>try\<close> logs and re-raises, so every exception of the body
  is the exception of the call.
\<close>

definition parse_dynamic_args :: "string \<Rightarrow> (string \<times> pyval) list result" where
  "parse_dynamic_args args =
     (case shlex_split args of
        Inl e \<Rightarrow> Inl e
      | Inr args_list \<Rightarrow>
          (case collect_args args_list [] of
             Inl e \<Rightarrow> Inl e
           | Inr parsed_args \<Rightarrow> convert_values parsed_args))"






subsection \<open>Properties of \<^verbatim>\<open>parse_dynamic_args\<close>\<close>





lemma collect_args_fail:
  "\<not> list_all has_eq toks \<Longrightarrow>
     \<exists>t. find (\<lambda>t. \<not> has_eq t) toks = Some t \<and> collect_args toks d = Inl (format_error t)"
  by (induction toks arbitrary: d) auto














text \<open>
  Claim C6. When the split of the argument string has a token without \<^verbatim>\<open>=\<close>, the call
  raises the formatting \<^verbatim>\<open>ValueError\<close> for such a token and returns no dictionary.
\<close>

theorem parse_dynamic_args_missing_eq:
  assumes "shlex_split args = Inr toks" and "\<exists>t\<in>set toks. CHR ''='' \<notin> set t"
  shows "(\<exists>t\<in>set toks. CHR ''='' \<notin> set t \<and> parse_dynamic_args args = Inl (format_error t))
         \<and> (\<forall>d. parse_dynamic_args args \<noteq> Inr d)"
proof -
  from assms(2) have "\<not> list_all has_eq toks" by (auto simp: list_all_iff has_eq_def)
  from collect_args_fail[OF this, of "[]"] obtain t where
    f: "find (\<lambda>t. \<not> has_eq t) toks = Some t" and c: "collect_args toks [] = Inl (format_error t)"
    by blast
  from f have "t \<in> set toks \<and> \<not> has_eq t" by (auto simp: find_Some_iff)
  moreover have "parse_dynamic_args args = Inl (format_error t)"
    using assms(1) c by (simp add: parse_dynamic_args_def)
  ultimately show ?thesis by (auto simp: has_eq_def)
qed

text \<open>C6 at the string \<^verbatim>\<open>a=1 verbose b=2\<close>: the error names the token \<^verbatim>\<open>verbose\<close>.\<close>

theorem parse_dynamic_args_missing_eq_witness:
  "shlex_split ''a=1 verbose b=2'' = Inr [''a=1'', ''verbose'', ''b=2'']
   \<and> parse_dynamic_args ''a=1 verbose b=2'' = Inl (format_error ''verbose'')"
proof -
  have s: "shlex_split ''a=1 verbose b=2'' = Inr [''a=1'', ''verbose'', ''b=2'']" by code_simp
  have h: "\<exists>t\<in>set [''a=1'', ''verbose'', ''b=2'']. CHR ''='' \<notin> set t" by simp
  have n: "CHR ''='' \<in> set ''a=1'' \<and> CHR ''='' \<in> set ''b=2''" by simp
  from parse_dynamic_args_missing_eq[OF s h] n s show ?thesis by auto
qed



subsection \<open>Values, files and modules\<close>

text \<open>
  A decoded JSON document, as \<^verbatim>\<open>json.loads\<close> returns it: an object is a dictionary
  (keys distinct, in order of first occurrence).
\<close>

datatype json =
    JNull | JBool bool | JInt int | JFloat pyfloat | JStr string
  | JArr "json list" | JObj "(string \<times> json) list"

text \<open>
  The local file system maps a path to the content of the file there. A file is either a
  serialized ONNX graph, given by the tensors of \<^verbatim>\<open>model.graph.initializer\<close>, or any
  other content. A tensor is stored inline or in an external file:
  \<open>data_location\<close> is \<open>Unset\<close> when the field is absent (\<^verbatim>\<open>HasField\<close> is false), and
  \<open>external_path\<close> is the path of the external file the tensor refers to.
\<close>

datatype data_location = Unset | Default | External

record tensor =
  tensor_name :: string
  data_location :: data_location
  external_path :: string
  raw_data :: string

datatype filedata = Onnx "tensor list" | Raw string

type_synonym fs = "string \<rightharpoonup> filedata"

text \<open>
  A module attribute is callable or not; calling it with keyword arguments raises or
  returns an instance (of the abstract type \<open>'m\<close> of model objects). A loaded module is
  its namespace.
\<close>

datatype 'm attr = Callable "(string \<times> pyval) list \<Rightarrow> 'm result" | NotCallable

type_synonym 'm module = "string \<rightharpoonup> 'm attr"

text \<open>
  The import machinery: \<open>has_loader\<close> tells whether \<^verbatim>\<open>spec_from_file_location\<close> finds a
  loader for the path (it returns \<^verbatim>\<open>None\<close> otherwise), \<open>exec_module\<close> runs the file and
  raises or yields the namespace.
\<close>

record 'm importer =
  has_loader :: "string \<Rightarrow> bool"
  exec_module :: "string \<Rightarrow> filedata \<Rightarrow> 'm module result"

subsection \<open>\<^verbatim>\<open>load_class_from_file\<close> (utils.py)\<close>

definition quoted :: "string \<Rightarrow> string" where
  "quoted s = [CHR 0x27] @ s @ [CHR 0x27]"

text \<open>
  The class name is the JSON value of the request; \<^verbatim>\<open>hasattr\<close> raises \<^verbatim>\<open>TypeError\<close>
  for a name that is not a string. The directory argument \<open>module_path\<close> is not used by
  the function. Every exception of the body is logged and re-raised.
\<close>

definition load_class_from_file ::
  "'m importer \<Rightarrow> fs \<Rightarrow> json \<Rightarrow> string \<Rightarrow> string \<Rightarrow> (string \<times> pyval) list \<Rightarrow> 'm result" where
  "load_class_from_file imp files class_name module_path file_path kwargs =
     (case files file_path of
        None \<Rightarrow> Inl (FileNotFoundError (''File not found: '' @ file_path))
      | Some content \<Rightarrow>
          if \<not> has_loader imp file_path
          then Inl (ImportError (''Unable to load spec for file: '' @ file_path))
          else
            (case exec_module imp file_path content of
               Inl e \<Rightarrow> Inl e
             | Inr module \<Rightarrow>
                 (case class_name of
                    JStr name \<Rightarrow>
                      (case module name of
                         None \<Rightarrow> Inl (AttributeError (''Class '' @ quoted name
                                    @ '' not found in module '' @ file_path))
                       | Some NotCallable \<Rightarrow>
                           Inl (TypeError (quoted name @ '' is not a valid class.''))
                       | Some (Callable cls) \<Rightarrow> cls kwargs)
                  | _ \<Rightarrow> Inl (TypeError ''attribute name must be string''))))"

text \<open>
  Claim C7. A missing source file gives \<^verbatim>\<open>FileNotFoundError\<close>; a file that loads to a
  module without the named class gives \<^verbatim>\<open>AttributeError\<close>; a named attribute that is
  not callable gives \<^verbatim>\<open>TypeError\<close>; and a callable one is called with the keyword
  arguments, its outcome being the outcome of the call (the instance, when the
  constructor returns one).
\<close>

theorem load_class_from_file_cases:
  "(files file_path = None \<longrightarrow>
      load_class_from_file imp files (JStr name) dir file_path kwargs
        = Inl (FileNotFoundError (''File not found: '' @ file_path)))
   \<and> (files file_path = Some content \<and> has_loader imp file_path
        \<and> exec_module imp file_path content = Inr module \<longrightarrow>
        (module name = None \<longrightarrow>
           load_class_from_file imp files (JStr name) dir file_path kwargs
             = Inl (AttributeError (''Class '' @ quoted name @ '' not found in module '' @ file_path)))
      \<and> (module name = Some NotCallable \<longrightarrow>
           load_class_from_file imp files (JStr name) dir file_path kwargs
             = Inl (TypeError (quoted name @ '' is not a valid class.'')))
      \<and> (\<forall>cls. module name = Some (Callable cls) \<longrightarrow>
           load_class_from_file imp files (JStr name) dir file_path kwargs = cls kwargs
           \<and> (\<forall>inst. cls kwargs = Inr inst \<longrightarrow>
                 load_class_from_file imp files (JStr name) dir file_path kwargs = Inr inst)))"
  by (simp add: load_class_from_file_def)

text \<open>
  C7 on a module that defines a callable \<open>Net\<close> and a non-callable \<open>VERSION\<close>: the four
  cases of the claim, the instance being the keyword arguments the class received.
\<close>

theorem load_class_from_file_cases_witness:
  "load_class_from_file
      \<lparr>has_loader = (\<lambda>p. True),
       exec_module = (\<lambda>p c. Inr [''Net'' \<mapsto> Callable (\<lambda>kw. Inr kw), ''VERSION'' \<mapsto> NotCallable])\<rparr>
      Map.empty (JStr ''Net'') ''/tmp/w'' ''/tmp/w/net.py'' [(''n'', PyInt 2)]
     = Inl (FileNotFoundError ''File not found: /tmp/w/net.py'')
   \<and> load_class_from_file
      \<lparr>has_loader = (\<lambda>p. True),
       exec_module = (\<lambda>p c. Inr [''Net'' \<mapsto> Callable (\<lambda>kw. Inr kw), ''VERSION'' \<mapsto> NotCallable])\<rparr>
      [''/tmp/w/net.py'' \<mapsto> Raw ''src''] (JStr ''Missing'') ''/tmp/w'' ''/tmp/w/net.py'' [(''n'', PyInt 2)]
     = Inl (AttributeError (''Class '' @ quoted ''Missing'' @ '' not found in module /tmp/w/net.py''))
   \<and> load_class_from_file
      \<lparr>has_loader = (\<lambda>p. True),
       exec_module = (\<lambda>p c. Inr [''Net'' \<mapsto> Callable (\<lambda>kw. Inr kw), ''VERSION'' \<mapsto> NotCallable])\<rparr>
      [''/tmp/w/net.py'' \<mapsto> Raw ''src''] (JStr ''VERSION'') ''/tmp/w'' ''/tmp/w/net.py'' [(''n'', PyInt 2)]
     = Inl (TypeError (quoted ''VERSION'' @ '' is not a valid class.''))
   \<and> load_class_from_file
      \<lparr>has_loader = (\<lambda>p. True),
       exec_module = (\<lambda>p c. Inr [''Net'' \<mapsto> Callable (\<lambda>kw. Inr kw), ''VERSION'' \<mapsto> NotCallable])\<rparr>
      [''/tmp/w/net.py'' \<mapsto> Raw ''src''] (JStr ''Net'') ''/tmp/w'' ''/tmp/w/net.py'' [(''n'', PyInt 2)]
     = Inr [(''n'', PyInt 2)]"
proof -
  let ?imp = "\<lparr>has_loader = (\<lambda>p. True),
       exec_module = (\<lambda>p c. Inr [''Net'' \<mapsto> Callable (\<lambda>kw. Inr kw), ''VERSION'' \<mapsto> NotCallable])\<rparr>
       :: (string \<times> pyval) list importer"
  let ?m = "[''Net'' \<mapsto> Callable (\<lambda>kw. Inr kw), ''VERSION'' \<mapsto> NotCallable]
       :: (string \<times> pyval) list module"
  let ?fs = "[''/tmp/w/net.py'' \<mapsto> Raw ''src''] :: fs"
  have a: "load_class_from_file ?imp Map.empty (JStr ''Net'') ''/tmp/w'' ''/tmp/w/net.py'' [(''n'', PyInt 2)]
           = Inl (FileNotFoundError (''File not found: '' @ ''/tmp/w/net.py''))"
    using load_class_from_file_cases[of Map.empty "''/tmp/w/net.py''" ?imp "''Net''" "''/tmp/w''"
        "[(''n'', PyInt 2)]"]
    by simp
  have pre: "?fs ''/tmp/w/net.py'' = Some (Raw ''src'') \<and> has_loader ?imp ''/tmp/w/net.py''
        \<and> exec_module ?imp ''/tmp/w/net.py'' (Raw ''src'') = Inr ?m"
    by simp
  have b: "load_class_from_file ?imp ?fs (JStr ''Missing'') ''/tmp/w'' ''/tmp/w/net.py'' [(''n'', PyInt 2)]
           = Inl (AttributeError (''Class '' @ quoted ''Missing'' @ '' not found in module '' @ ''/tmp/w/net.py''))"
    using load_class_from_file_cases[of ?fs "''/tmp/w/net.py''" ?imp "''Missing''" "''/tmp/w''"
        "[(''n'', PyInt 2)]" "Raw ''src''" ?m] pre
    by simp
  have c: "load_class_from_file ?imp ?fs (JStr ''VERSION'') ''/tmp/w'' ''/tmp/w/net.py'' [(''n'', PyInt 2)]
           = Inl (TypeError (quoted ''VERSION'' @ '' is not a valid class.''))"
    using load_class_from_file_cases[of ?fs "''/tmp/w/net.py''" ?imp "''VERSION''" "''/tmp/w''"
        "[(''n'', PyInt 2)]" "Raw ''src''" ?m] pre
    by simp
  have d: "load_class_from_file ?imp ?fs (JStr ''Net'') ''/tmp/w'' ''/tmp/w/net.py'' [(''n'', PyInt 2)]
           = Inr [(''n'', PyInt 2)]"
    using load_class_from_file_cases[of ?fs "''/tmp/w/net.py''" ?imp "''Net''" "''/tmp/w''"
        "[(''n'', PyInt 2)]" "Raw ''src''" ?m] pre
    by simp
  from a b c d show ?thesis by simp
qed

subsection \<open>The world of an invocation\<close>

text \<open>
  The state the handler acts on: the local file system and the log written through
  \<^verbatim>\<open>logging\<close> (handler.py). A computation takes the world and returns its outcome, a
  value or a raised exception, with the world it leaves; an exception keeps the effects
  that preceded it. Log messages carry their text without the check-mark character that
  starts some of them in the source (it lies outside the character range of the model);
  the debug and error lines of utils.py are not recorded.
\<close>

datatype log_level = LInfo | LWarning | LError

record world =
  files :: fs
  logged :: "(log_level \<times> string) list"

type_synonym 'a io = "world \<Rightarrow> 'a result \<times> world"

definition io_return :: "'a \<Rightarrow> 'a io" where
  "io_return x = (\<lambda>w. (Inr x, w))"

definition io_raise :: "exn \<Rightarrow> 'a io" where
  "io_raise e = (\<lambda>w. (Inl e, w))"

definition io_lift :: "'a result \<Rightarrow> 'a io" where
  "io_lift r = (\<lambda>w. (r, w))"

definition io_bind :: "'a io \<Rightarrow> ('a \<Rightarrow> 'b io) \<Rightarrow> 'b io" where
  "io_bind m f = (\<lambda>w. case m w of (Inl e, w') \<Rightarrow> (Inl e, w') | (Inr x, w') \<Rightarrow> f x w')"

text \<open>\<^verbatim>\<open>try: m except Exception as e: h e\<close>.\<close>

definition try_except :: "'a io \<Rightarrow> (exn \<Rightarrow> 'a io) \<Rightarrow> 'a io" where
  "try_except m h = (\<lambda>w. case m w of (Inl e, w') \<Rightarrow> h e w' | (Inr x, w') \<Rightarrow> (Inr x, w'))"

definition log_msg :: "log_level \<Rightarrow> string \<Rightarrow> unit io" where
  "log_msg lvl msg = (\<lambda>w. (Inr (), w\<lparr>logged := logged w @ [(lvl, msg)]\<rparr>))"

definition get_files :: "fs io" where
  "get_files = (\<lambda>w. (Inr (files w), w))"

definition set_files :: "fs \<Rightarrow> unit io" where
  "set_files f = (\<lambda>w. (Inr (), w\<lparr>files := f\<rparr>))"

text \<open>
  \<^verbatim>\<open>str(e)\<close>: the message of the exception; for a \<^verbatim>\<open>KeyError\<close> the representation of
  the key (a key without quotes or escapes, as the field names of a request are).
\<close>

fun exn_str :: "exn \<Rightarrow> string" where
  "exn_str (KeyError k) = quoted k"
| "exn_str (ValueError m) = m"
| "exn_str (TypeError m) = m"
| "exn_str (AttributeError m) = m"
| "exn_str (FileNotFoundError m) = m"
| "exn_str (ImportError m) = m"
| "exn_str (ConnectionError m) = m"
| "exn_str (JSONDecodeError m) = m"
| "exn_str (S3Error m) = m"
| "exn_str (LibError m) = m"

subsection \<open>The environment of the handler\<close>

text \<open>The keyword arguments handed to the legacy exporter (\<^verbatim>\<open>export_args\<close>).\<close>

record ('m, 'x) export_args =
  ea_model :: 'm
  ea_args :: 'x
  ea_f :: string
  ea_export_params :: bool
  ea_opset_version :: nat
  ea_do_constant_folding :: bool
  ea_input_names :: "string list"
  ea_output_names :: "string list"
  ea_dynamic_axes :: "(string \<times> (nat \<times> string) list) list"
  ea_use_external_data_format :: "bool option"

text \<open>
  Everything outside the two modules is a parameter: the configuration read from the
  process environment, the JSON decoder, the MinIO client, the import machinery, torch
  and the onnx checker. Each operation raises (an exception) or returns. The types
  \<open>'m\<close>, \<open>'s\<close>, \<open>'x\<close> and \<open>'p\<close> are those of model objects, state dictionaries, input
  tensors and exported programs (\<^verbatim>\<open>ONNXProgram\<close>).
  The endpoint is a host with an optional port (the Minio client accepts nothing else
  when the module is imported).
\<close>

record ('m, 's, 'x, 'p) env =
  MINIO_ENDPOINT :: string
  MINIO_SECURE :: bool
  json_loads :: "string \<Rightarrow> json result"
  py_str :: "json \<Rightarrow> string"
  split_error :: "json \<Rightarrow> exn"
  mkdtemp :: "string result"
  list_buckets :: "exn option"
  fget_object :: "string \<Rightarrow> string \<Rightarrow> filedata result"
  bucket_exists :: "string \<Rightarrow> bool result"
  make_bucket :: "string \<Rightarrow> exn option"
  fput_object :: "string \<Rightarrow> string \<Rightarrow> filedata \<Rightarrow> exn option"
  importer :: "'m importer"
  torch_load :: "filedata \<Rightarrow> 's result"
  load_state_dict :: "'m \<Rightarrow> 's \<Rightarrow> 'm result"
  to_device_eval :: "'m \<Rightarrow> 'm result"
  randn :: "json \<Rightarrow> 'x result"
  has_dynamo_export :: bool
  export_options :: "exn option"
  dynamo_export :: "'m \<Rightarrow> 'x \<Rightarrow> 'p result"
  program_save :: "'p \<Rightarrow> string \<Rightarrow> fs \<Rightarrow> fs result"
  has_external_data_flag :: bool
  onnx_export :: "('m, 'x) export_args \<Rightarrow> fs \<Rightarrow> fs result"
  serialize :: "tensor list \<Rightarrow> string"
  save_fault :: "string \<Rightarrow> exn option"
  remove_fault :: "string \<Rightarrow> exn option"
  check_model :: "tensor list \<Rightarrow> exn option"

definition BUCKET_MODELS :: string where "BUCKET_MODELS = ''models''"
definition BUCKET_WEIGHTS :: string where "BUCKET_WEIGHTS = ''weights''"
definition BUCKET_OUTPUT :: string where "BUCKET_OUTPUT = ''onnx''"

text \<open>An operation that reports failure by an optional exception.\<close>

definition io_check :: "exn option \<Rightarrow> unit io" where
  "io_check r = (case r of None \<Rightarrow> io_return () | Some e \<Rightarrow> io_raise e)"

subsection \<open>The onnx library on the local file system\<close>

text \<open>
  \<^verbatim>\<open>onnx.load(path, load_external_data)\<close>: the file must hold a graph; with
  \<open>load_external_data\<close> every tensor stored externally gets the content of its external
  file as inline data and loses the reference, and a missing external file raises.
\<close>

definition file_bytes :: "('m, 's, 'x, 'p) env \<Rightarrow> filedata \<Rightarrow> string" where
  "file_bytes env c = (case c of Raw d \<Rightarrow> d | Onnx ts \<Rightarrow> serialize env ts)"

fun load_external_data :: "('m, 's, 'x, 'p) env \<Rightarrow> fs \<Rightarrow> tensor list \<Rightarrow> tensor list result" where
  "load_external_data env f [] = Inr []"
| "load_external_data env f (t # ts) =
     (if data_location t = External then
        (case f (external_path t) of
           None \<Rightarrow> Inl (FileNotFoundError (''No such file or directory: '' @ external_path t))
         | Some c \<Rightarrow>
             (case load_external_data env f ts of
                Inl e \<Rightarrow> Inl e
              | Inr ts' \<Rightarrow> Inr (t\<lparr>data_location := Default, external_path := [],
                                  raw_data := file_bytes env c\<rparr> # ts')))
      else (case load_external_data env f ts of Inl e \<Rightarrow> Inl e | Inr ts' \<Rightarrow> Inr (t # ts')))"

definition onnx_load :: "('m, 's, 'x, 'p) env \<Rightarrow> string \<Rightarrow> bool \<Rightarrow> tensor list io" where
  "onnx_load env path load_ext =
     io_bind get_files (\<lambda>f.
       case f path of
         None \<Rightarrow> io_raise (FileNotFoundError (''No such file or directory: '' @ path))
       | Some (Raw d) \<Rightarrow> io_raise (LibError ''Error parsing message'')
       | Some (Onnx ts) \<Rightarrow> if load_ext then io_lift (load_external_data env f ts) else io_return ts)"

text \<open>\<^verbatim>\<open>onnx.save(model, path, save_as_external_data=False)\<close> and \<^verbatim>\<open>os.remove(path)\<close>.\<close>

definition onnx_save :: "('m, 's, 'x, 'p) env \<Rightarrow> tensor list \<Rightarrow> string \<Rightarrow> unit io" where
  "onnx_save env model path =
     (case save_fault env path of
        Some e \<Rightarrow> io_raise e
      | None \<Rightarrow> io_bind get_files (\<lambda>f. set_files (f(path \<mapsto> Onnx model))))"

definition os_remove :: "('m, 's, 'x, 'p) env \<Rightarrow> string \<Rightarrow> unit io" where
  "os_remove env path =
     (case remove_fault env path of
        Some e \<Rightarrow> io_raise e
      | None \<Rightarrow> io_bind get_files (\<lambda>f.
          if path \<in> dom f then set_files (f(path := None))
          else io_raise (FileNotFoundError (''No such file or directory: '' @ path))))"

definition path_exists :: "string \<Rightarrow> bool io" where
  "path_exists path = io_bind get_files (\<lambda>f. io_return (path \<in> dom f))"

subsection \<open>\<^verbatim>\<open>ensure_single_file_onnx\<close> (handler.py)\<close>

text \<open>
  The loop over \<^verbatim>\<open>model.graph.initializer\<close> of the branch without a companion file: at
  the first tensor that refers to external data the model is saved again and the loop
  is left.
\<close>

fun resave_if_external :: "('m, 's, 'x, 'p) env \<Rightarrow> tensor list \<Rightarrow> string \<Rightarrow> tensor list \<Rightarrow> unit io" where
  "resave_if_external env model onnx_path [] = io_return ()"
| "resave_if_external env model onnx_path (t # ts) =
     (if data_location t = External then
        io_bind (log_msg LWarning ''Model references external data but file is missing!'') (\<lambda>_.
        io_bind (log_msg LInfo ''Attempting to re-save as single file...'') (\<lambda>_.
        io_bind (onnx_save env model onnx_path) (\<lambda>_.
        log_msg LInfo ''Re-saved as single-file ONNX'')))
      else resave_if_external env model onnx_path ts)"

text \<open>The body of the \<^verbatim>\<open>try\<close> statement.\<close>

definition ensure_body :: "('m, 's, 'x, 'p) env \<Rightarrow> string \<Rightarrow> unit io" where
  "ensure_body env onnx_path =
     (let external_data_path = onnx_path @ ''.data'' in
      io_bind (path_exists external_data_path) (\<lambda>found.
        if found then
          io_bind (log_msg LInfo (''Found external data file: '' @ external_data_path)) (\<lambda>_.
          io_bind (log_msg LInfo ''Converting to single-file format...'') (\<lambda>_.
          io_bind (onnx_load env onnx_path True) (\<lambda>model.
          io_bind (onnx_save env model onnx_path) (\<lambda>_.
          io_bind (path_exists external_data_path) (\<lambda>still.
          io_bind (if still then
                     io_bind (os_remove env external_data_path) (\<lambda>_.
                     log_msg LInfo (''Removed external data file: '' @ external_data_path))
                   else io_return ()) (\<lambda>_.
          log_msg LInfo ''Converted to single-file ONNX format''))))))
        else
          io_bind (onnx_load env onnx_path True) (\<lambda>model.
          resave_if_external env model onnx_path model)))"

definition ensure_single_file_onnx :: "('m, 's, 'x, 'p) env \<Rightarrow> string \<Rightarrow> unit io" where
  "ensure_single_file_onnx env onnx_path =
     try_except (ensure_body env onnx_path)
       (\<lambda>e. log_msg LWarning (''Could not verify/convert ONNX format: '' @ exn_str e))"

subsection \<open>\<^verbatim>\<open>export_onnx\<close> (handler.py)\<close>

text \<open>An exporter writes files; the file system it leaves replaces the current one.\<close>

definition io_write :: "(fs \<Rightarrow> fs result) \<Rightarrow> unit io" where
  "io_write op = io_bind get_files (\<lambda>f. io_bind (io_lift (op f)) set_files)"

text \<open>The body of the \<^verbatim>\<open>try\<close> statement around the modern exporter.\<close>

definition modern_export :: "('m, 's, 'x, 'p) env \<Rightarrow> 'm \<Rightarrow> 'x \<Rightarrow> string \<Rightarrow> unit io" where
  "modern_export env model dummy_input output_path =
     io_bind (log_msg LInfo ''Attempting torch.onnx.dynamo_export()'') (\<lambda>_.
     io_bind (io_check (export_options env)) (\<lambda>_.
     io_bind (io_lift (dynamo_export env model dummy_input)) (\<lambda>exported.
     io_bind (io_write (program_save env exported output_path)) (\<lambda>_.
     io_bind (ensure_single_file_onnx env output_path) (\<lambda>_.
     log_msg LInfo (''ONNX model saved via dynamo_export to '' @ output_path))))))"

definition legacy_args :: "('m, 's, 'x, 'p) env \<Rightarrow> 'm \<Rightarrow> 'x \<Rightarrow> string \<Rightarrow> ('m, 'x) export_args" where
  "legacy_args env model dummy_input output_path =
     \<lparr>ea_model = model, ea_args = dummy_input, ea_f = output_path,
      ea_export_params = True, ea_opset_version = 17, ea_do_constant_folding = True,
      ea_input_names = [''input''], ea_output_names = [''output''],
      ea_dynamic_axes = [(''input'', [(0, ''batch_size'')]), (''output'', [(0, ''batch_size'')])],
      ea_use_external_data_format = (if has_external_data_flag env then Some False else None)\<rparr>"

definition legacy_export :: "('m, 's, 'x, 'p) env \<Rightarrow> 'm \<Rightarrow> 'x \<Rightarrow> string \<Rightarrow> unit io" where
  "legacy_export env model dummy_input output_path =
     io_bind (log_msg LInfo ''Using torch.onnx.export() (legacy)'') (\<lambda>_.
     io_bind (if has_external_data_flag env
              then log_msg LInfo ''Set use_external_data_format=False'' else io_return ()) (\<lambda>_.
     io_bind (io_write (onnx_export env (legacy_args env model dummy_input output_path))) (\<lambda>_.
     io_bind (ensure_single_file_onnx env output_path) (\<lambda>_.
     log_msg LInfo (''ONNX model exported via torch.onnx.export() to '' @ output_path)))))"

definition dynamo_warning :: "exn \<Rightarrow> string" where
  "dynamo_warning e = ''dynamo_export() failed: '' @ exn_str e @ ''. Falling back to legacy exporter.''"

definition export_onnx :: "('m, 's, 'x, 'p) env \<Rightarrow> 'm \<Rightarrow> 'x \<Rightarrow> string \<Rightarrow> unit io" where
  "export_onnx env model dummy_input output_path =
     io_bind (log_msg LInfo ''Starting ONNX export...'') (\<lambda>_.
       if has_dynamo_export env then
         try_except (modern_export env model dummy_input output_path)
           (\<lambda>e. io_bind (log_msg LWarning (dynamo_warning e)) (\<lambda>_.
                 legacy_export env model dummy_input output_path))
       else legacy_export env model dummy_input output_path)"

subsection \<open>Paths and URLs\<close>

text \<open>\<^verbatim>\<open>os.path.basename\<close>, \<^verbatim>\<open>os.path.dirname\<close> and \<^verbatim>\<open>os.path.join\<close> (POSIX).\<close>

definition basename :: "string \<Rightarrow> string" where
  "basename p = rev (takeWhile (\<lambda>c. c \<noteq> CHR ''/'') (rev p))"

definition dirname :: "string \<Rightarrow> string" where
  "dirname p =
     (let head = rev (dropWhile (\<lambda>c. c \<noteq> CHR ''/'') (rev p)) in
      if head \<noteq> [] \<and> \<not> list_all (\<lambda>c. c = CHR ''/'') head
      then rev (dropWhile (\<lambda>c. c = CHR ''/'') (rev head)) else head)"

definition path_join :: "string \<Rightarrow> string \<Rightarrow> string" where
  "path_join a b =
     (if b \<noteq> [] \<and> hd b = CHR ''/'' then b
      else if a = [] \<or> last a = CHR ''/'' then a @ b
      else a @ ''/'' @ b)"

text \<open>\<^verbatim>\<open>s.split(c)\<close> and \<^verbatim>\<open>c.join(parts)\<close> for a separator of one character.\<close>

fun split_sep :: "char \<Rightarrow> string \<Rightarrow> string list" where
  "split_sep c [] = [[]]"
| "split_sep c (x # xs) =
     (if x = c then [] # split_sep c xs
      else (case split_sep c xs of [] \<Rightarrow> [[x]] | h # t \<Rightarrow> (x # h) # t))"

fun join_sep :: "char \<Rightarrow> string list \<Rightarrow> string" where
  "join_sep c [] = []"
| "join_sep c [s] = s"
| "join_sep c (s # t # ss) = s @ c # join_sep c (t # ss)"

text \<open>\<^verbatim>\<open>s.split(c, 1)\<close> for a string that contains \<open>c\<close>.\<close>

definition split_first :: "char \<Rightarrow> string \<Rightarrow> string \<times> string" where
  "split_first c s = (takeWhile (\<lambda>x. x \<noteq> c) s, drop 1 (dropWhile (\<lambda>x. x \<noteq> c) s))"

text \<open>
  \<^verbatim>\<open>urljoin(base, rel)\<close> of \<^verbatim>\<open>urllib.parse\<close> for the way the handler calls it: the base
  is \<^verbatim>\<open>scheme://netloc/\<close> with the scheme \<^verbatim>\<open>http\<close> or \<^verbatim>\<open>https\<close>, and the reference
  starts with the bucket name and a slash, so it has no scheme and no authority of its
  own. The reference loses tabs and line breaks, is split into path, parameters, query
  and fragment, the path is resolved against the base path \<^verbatim>\<open>/\<close> (empty inner segments
  dropped, \<^verbatim>\<open>.\<close> and \<^verbatim>\<open>..\<close> segments resolved), and the parts are put together again.
\<close>

definition remove_unsafe :: "string \<Rightarrow> string" where
  "remove_unsafe s = filter (\<lambda>c. c \<noteq> CHR 0x09 \<and> c \<noteq> CHR 0x0D \<and> c \<noteq> CHR 0x0A) s"

definition splitparams :: "string \<Rightarrow> string \<times> string" where
  "splitparams url =
     (let lastseg = basename url; front = take (length url - length lastseg) url in
      if CHR '';'' \<in> set lastseg
      then (front @ takeWhile (\<lambda>c. c \<noteq> CHR '';'') lastseg,
            drop 1 (dropWhile (\<lambda>c. c \<noteq> CHR '';'') lastseg))
      else (url, []))"

definition resolve_step :: "string list \<Rightarrow> string \<Rightarrow> string list" where
  "resolve_step resolved seg =
     (if seg = ''..'' then butlast resolved
      else if seg = ''.'' then resolved
      else resolved @ [seg])"

definition resolve_path :: "string \<Rightarrow> string" where
  "resolve_path path =
     (let segments0 = (if path \<noteq> [] \<and> hd path = CHR ''/'' then split_sep (CHR ''/'') path
                       else [[], []] @ split_sep (CHR ''/'') path);
          segments = hd segments0 # filter (\<lambda>s. s \<noteq> []) (butlast (tl segments0)) @ [last segments0];
          resolved0 = foldl resolve_step [] segments;
          resolved = (if last segments = ''.'' \<or> last segments = ''..'' then resolved0 @ [[]] else resolved0);
          joined = join_sep (CHR ''/'') resolved
      in if joined = [] then ''/'' else joined)"

definition urlunparse :: "string \<Rightarrow> string \<Rightarrow> string \<Rightarrow> string \<Rightarrow> string \<Rightarrow> string \<Rightarrow> string" where
  "urlunparse scheme netloc path params query fragment =
     (let u = (if params \<noteq> [] then path @ '';'' @ params else path);
          u' = (if u \<noteq> [] \<and> hd u \<noteq> CHR ''/'' then ''/'' @ u else u)
      in scheme @ '':'' @ ''//'' @ netloc @ u'
         @ (if query \<noteq> [] then ''?'' @ query else [])
         @ (if fragment \<noteq> [] then ''#'' @ fragment else []))"

definition urljoin :: "string \<Rightarrow> string \<Rightarrow> string \<Rightarrow> string" where
  "urljoin scheme netloc rel =
     (let url0 = remove_unsafe rel;
          (url1, fragment) = (if CHR ''#'' \<in> set url0 then split_first (CHR ''#'') url0 else (url0, []));
          (url2, query) = (if CHR ''?'' \<in> set url1 then split_first (CHR ''?'') url1 else (url1, []));
          (path, params) = (if CHR '';'' \<in> set url2 then splitparams url2 else (url2, []))
      in if path = [] \<and> params = [] then urlunparse scheme netloc ''/'' [] query fragment
         else urlunparse scheme netloc (resolve_path path) params query fragment)"

subsection \<open>\<^verbatim>\<open>execute\<close> (handler.py)\<close>

text \<open>
  Operations on the decoded request: \<^verbatim>\<open>req[key]\<close>, \<^verbatim>\<open>req.get(key, default)\<close> on a
  dictionary, the use of a value as a path, and its formatting in an f-string.
\<close>

definition type_name :: "json \<Rightarrow> string" where
  "type_name j = (case j of JNull \<Rightarrow> ''NoneType'' | JBool _ \<Rightarrow> ''bool'' | JInt _ \<Rightarrow> ''int''
      | JFloat _ \<Rightarrow> ''float'' | JStr _ \<Rightarrow> ''str'' | JArr _ \<Rightarrow> ''list'' | JObj _ \<Rightarrow> ''dict'')"

definition subscript :: "json \<Rightarrow> string \<Rightarrow> json result" where
  "subscript req key =
     (case req of
        JObj kvs \<Rightarrow> (case map_of kvs key of None \<Rightarrow> Inl (KeyError key) | Some v \<Rightarrow> Inr v)
      | JArr _ \<Rightarrow> Inl (TypeError ''list indices must be integers or slices, not str'')
      | JStr _ \<Rightarrow> Inl (TypeError (''string indices must be integers, not '' @ quoted ''str''))
      | _ \<Rightarrow> Inl (TypeError (quoted (type_name req) @ '' object is not subscriptable'')))"

definition dict_get :: "json \<Rightarrow> string \<Rightarrow> json \<Rightarrow> json" where
  "dict_get req key dflt =
     (case req of JObj kvs \<Rightarrow> (case map_of kvs key of None \<Rightarrow> dflt | Some v \<Rightarrow> v) | _ \<Rightarrow> dflt)"

definition as_path :: "json \<Rightarrow> string result" where
  "as_path j =
     (case j of JStr s \<Rightarrow> Inr s
      | _ \<Rightarrow> Inl (TypeError (''expected str, bytes or os.PathLike object, not '' @ type_name j)))"

definition format_value :: "('m, 's, 'x, 'p) env \<Rightarrow> json \<Rightarrow> string" where
  "format_value env j = (case j of JStr s \<Rightarrow> s | _ \<Rightarrow> py_str env j)"

text \<open>
  \<^verbatim>\<open>parse_dynamic_args(req.get("args", ""))\<close>: a value that is not a string makes
  \<^verbatim>\<open>shlex.split\<close> raise.
\<close>

definition parse_args_of :: "('m, 's, 'x, 'p) env \<Rightarrow> json \<Rightarrow> (string \<times> pyval) list result" where
  "parse_args_of env j = (case j of JStr a \<Rightarrow> parse_dynamic_args a | _ \<Rightarrow> Inl (split_error env j))"

text \<open>
  The call \<^verbatim>\<open>load_class_from_file(model_class, dir, py_local, **dynamic_args)\<close>: a keyword
  that names one of the three positional parameters is refused before the function runs.
\<close>

definition call_load_class ::
  "('m, 's, 'x, 'p) env \<Rightarrow> fs \<Rightarrow> json \<Rightarrow> string \<Rightarrow> string \<Rightarrow> (string \<times> pyval) list \<Rightarrow> 'm result" where
  "call_load_class env f model_class dir py_local dynamic_args =
     (case find (\<lambda>k. k \<in> {''class_name'', ''module_path'', ''file_path''}) (map fst dynamic_args) of
        Some k \<Rightarrow> Inl (TypeError (''load_class_from_file() got multiple values for argument '' @ quoted k))
      | None \<Rightarrow> load_class_from_file (importer env) f model_class dir py_local dynamic_args)"

text \<open>
  \<^verbatim>\<open>with tempfile.TemporaryDirectory() as tmpdir\<close>: the directory is created, the body
  runs, and on every exit the files below the directory are deleted (paths are compared
  as strings).
\<close>

definition cleanup :: "string \<Rightarrow> fs \<Rightarrow> fs" where
  "cleanup tmpdir f = (\<lambda>p. if take (Suc (length tmpdir)) p = tmpdir @ ''/'' then None else f p)"

definition with_tmpdir :: "('m, 's, 'x, 'p) env \<Rightarrow> (string \<Rightarrow> 'a io) \<Rightarrow> 'a io" where
  "with_tmpdir env body =
     io_bind (io_lift (mkdtemp env)) (\<lambda>tmpdir w.
       case body tmpdir w of (r, w') \<Rightarrow> (r, w'\<lparr>files := cleanup tmpdir (files w')\<rparr>))"

text \<open>Step 1: the connectivity check.\<close>

definition connect :: "('m, 's, 'x, 'p) env \<Rightarrow> unit io" where
  "connect env =
     (case list_buckets env of
        None \<Rightarrow> log_msg LInfo (''Connected to MinIO at '' @ MINIO_ENDPOINT env)
      | Some e \<Rightarrow> io_raise (ConnectionError (''Unable to connect to MinIO ('' @ MINIO_ENDPOINT env
                            @ ''): '' @ exn_str e)))"

text \<open>Step 2: the two downloads; an \<^verbatim>\<open>S3Error\<close> is raised again as \<^verbatim>\<open>FileNotFoundError\<close>.\<close>

definition fetch :: "('m, 's, 'x, 'p) env \<Rightarrow> string \<Rightarrow> string \<Rightarrow> string \<Rightarrow> unit io" where
  "fetch env bucket key local =
     io_bind (io_lift (fget_object env bucket key)) (\<lambda>c.
     io_bind get_files (\<lambda>f. set_files (f(local \<mapsto> c))))"

definition except_s3 :: "'a io \<Rightarrow> 'a io" where
  "except_s3 m = (\<lambda>w. case m w of
       (Inl (S3Error msg), w') \<Rightarrow> (Inl (FileNotFoundError (''Missing model or weights file: '' @ msg)), w')
     | (r, w') \<Rightarrow> (r, w'))"

definition download :: "('m, 's, 'x, 'p) env \<Rightarrow> string \<Rightarrow> string \<Rightarrow> string \<Rightarrow> string \<Rightarrow> unit io" where
  "download env python_path py_local weights_path weights_local =
     except_s3
       (io_bind (fetch env BUCKET_MODELS python_path py_local) (\<lambda>_.
        io_bind (log_msg LInfo (''Downloaded model code: '' @ BUCKET_MODELS @ ''/'' @ python_path)) (\<lambda>_.
        io_bind (fetch env BUCKET_WEIGHTS weights_path weights_local) (\<lambda>_.
        log_msg LInfo (''Downloaded weights: '' @ BUCKET_WEIGHTS @ ''/'' @ weights_path)))))"

text \<open>Step 3: the model is loaded, given its weights and put into evaluation mode.\<close>

definition read_file :: "string \<Rightarrow> filedata io" where
  "read_file path =
     io_bind get_files (\<lambda>f. case f path of
        None \<Rightarrow> io_raise (FileNotFoundError (''No such file or directory: '' @ path))
      | Some c \<Rightarrow> io_return c)"

definition load_model ::
  "('m, 's, 'x, 'p) env \<Rightarrow> json \<Rightarrow> string \<Rightarrow> string \<Rightarrow> (string \<times> pyval) list \<Rightarrow> 'm io" where
  "load_model env model_class py_local weights_local dynamic_args =
     io_bind get_files (\<lambda>f.
     io_bind (io_lift (call_load_class env f model_class (dirname py_local) py_local dynamic_args)) (\<lambda>model.
     io_bind (read_file weights_local) (\<lambda>c.
     io_bind (io_lift (torch_load env c)) (\<lambda>state.
     io_bind (io_lift (load_state_dict env model state)) (\<lambda>model.
     io_lift (to_device_eval env model))))))"

text \<open>Step 6: the upload to the output bucket, created when it does not exist.\<close>

definition upload :: "('m, 's, 'x, 'p) env \<Rightarrow> string \<Rightarrow> string \<Rightarrow> unit io" where
  "upload env output_key onnx_local =
     io_bind (io_lift (bucket_exists env BUCKET_OUTPUT)) (\<lambda>present.
     io_bind (if \<not> present then io_check (make_bucket env BUCKET_OUTPUT) else io_return ()) (\<lambda>_.
     io_bind (read_file onnx_local) (\<lambda>c.
     io_bind (io_check (fput_object env BUCKET_OUTPUT output_key c)) (\<lambda>_.
     log_msg LInfo (''Uploaded ONNX model to '' @ BUCKET_OUTPUT @ ''/'' @ output_key)))))"

record export_result =
  status :: string
  message :: string
  onnx_path :: string
  download_url :: string

definition execute :: "('m, 's, 'x, 'p) env \<Rightarrow> json \<Rightarrow> export_result io" where
  "execute env req =
     io_bind (io_lift (subscript req ''python_path'')) (\<lambda>python_path.
     io_bind (io_lift (subscript req ''weights_path'')) (\<lambda>weights_path.
     io_bind (io_lift (subscript req ''model_class'')) (\<lambda>model_class.
     io_bind (io_lift (parse_args_of env (dict_get req ''args'' (JStr [])))) (\<lambda>dynamic_args.
     let input_shape = dict_get req ''input_shape'' (JArr [JInt 3, JInt 224, JInt 224]) in
     with_tmpdir env (\<lambda>tmpdir.
       io_bind (io_lift (as_path python_path)) (\<lambda>python_path.
       io_bind (io_lift (as_path weights_path)) (\<lambda>weights_path.
       let py_local = path_join tmpdir (basename python_path);
           weights_local = path_join tmpdir (basename weights_path);
           onnx_local = path_join tmpdir (format_value env model_class @ ''.onnx'') in
       io_bind (connect env) (\<lambda>_.
       io_bind (download env python_path py_local weights_path weights_local) (\<lambda>_.
       io_bind (load_model env model_class py_local weights_local dynamic_args) (\<lambda>model.
       io_bind (io_lift (randn env input_shape)) (\<lambda>dummy_input.
       io_bind (export_onnx env model dummy_input onnx_local) (\<lambda>_.
       io_bind (onnx_load env onnx_local True) (\<lambda>onnx_model.
       io_bind (io_check (check_model env onnx_model)) (\<lambda>_.
       io_bind (log_msg LInfo ''ONNX model validated successfully'') (\<lambda>_.
       let output_key = format_value env model_class @ ''.onnx'' in
       io_bind (upload env output_key onnx_local) (\<lambda>_.
       let scheme = (if MINIO_SECURE env then ''https'' else ''http'');
           url = urljoin scheme (MINIO_ENDPOINT env) (BUCKET_OUTPUT @ ''/'' @ output_key) in
       io_return \<lparr>status = ''success'',
                  message = ''Model exported and validated successfully.'',
                  onnx_path = output_key,
                  download_url = url\<rparr>))))))))))))))))"

subsection \<open>\<^verbatim>\<open>handle\<close> (handler.py)\<close>

text \<open>
  The event carries the request body, or none (the default \<^verbatim>\<open>""\<close> is used then); the
  context argument is not used. The
  response body is kept as the dictionary that \<^verbatim>\<open>json.dumps\<close> serializes: the result of
  \<open>execute\<close>, or the error text with the optional details.
\<close>

datatype response_body = Success export_result | Failure string "string option"

record response =
  statusCode :: nat
  body :: response_body

definition handle_body :: "('m, 's, 'x, 'p) env \<Rightarrow> string option \<Rightarrow> export_result io" where
  "handle_body env event =
     (let b = (case event of None \<Rightarrow> [] | Some s \<Rightarrow> s) in
      io_bind (if b = [] then io_raise (ValueError ''Empty request body'') else io_return ()) (\<lambda>_.
      io_bind (io_lift (json_loads env b)) (\<lambda>req.
      execute env req)))"

definition handle :: "('m, 's, 'x, 'p) env \<Rightarrow> string option \<Rightarrow> world \<Rightarrow> response \<times> world" where
  "handle env event w =
     (case handle_body env event w of
        (Inr result, w') \<Rightarrow> (\<lparr>statusCode = 200, body = Success result\<rparr>, w')
      | (Inl (JSONDecodeError m), w') \<Rightarrow>
          (\<lparr>statusCode = 400, body = Failure ''Invalid JSON'' (Some m)\<rparr>,
           w'\<lparr>logged := logged w' @ [(LError, ''Invalid JSON input'')]\<rparr>)
      | (Inl e, w') \<Rightarrow>
          (\<lparr>statusCode = 500, body = Failure (exn_str e) None\<rparr>,
           w'\<lparr>logged := logged w' @ [(LError, ''Unhandled exception'')]\<rparr>))"

subsection \<open>Basic facts about computations\<close>

lemma io_simps:
  "io_return x w = (Inr x, w)"
  "io_raise e w = (Inl e, w)"
  "io_lift r w = (r, w)"
  "log_msg lvl msg w = (Inr (), w\<lparr>logged := logged w @ [(lvl, msg)]\<rparr>)"
  "get_files w = (Inr (files w), w)"
  "set_files f w = (Inr (), w\<lparr>files := f\<rparr>)"
  by (simp_all add: io_return_def io_raise_def io_lift_def log_msg_def get_files_def set_files_def)

lemma io_bind_Inr: "m w = (Inr x, w') \<Longrightarrow> io_bind m f w = f x w'"
  by (simp add: io_bind_def)

lemma io_bind_Inl: "m w = (Inl e, w') \<Longrightarrow> io_bind m f w = (Inl e, w')"
  by (simp add: io_bind_def)


lemma io_bind_InlD:
  "io_bind m f w = (Inl e, w'') \<Longrightarrow>
     m w = (Inl e, w'') \<or> (\<exists>x w'. m w = (Inr x, w') \<and> f x w' = (Inl e, w''))"
  by (auto simp: io_bind_def split: prod.splits sum.splits)

lemma io_bind_apply:
  "io_bind m f w = (case m w of (Inl e, w') \<Rightarrow> (Inl e, w') | (Inr x, w') \<Rightarrow> f x w')"
  by (simp add: io_bind_def)

lemma try_except_apply:
  "try_except m h w = (case m w of (Inl e, w') \<Rightarrow> h e w' | (Inr x, w') \<Rightarrow> (Inr x, w'))"
  by (simp add: try_except_def)

lemma io_check_apply:
  "io_check r w = (case r of None \<Rightarrow> (Inr (), w) | Some e \<Rightarrow> (Inl e, w))"
  by (simp add: io_check_def io_simps split: option.splits)

lemma ensure_single_file_onnx_body:
  "ensure_single_file_onnx env p w =
     (case ensure_body env p w of
        (Inl e, w1) \<Rightarrow> (Inr (), w1\<lparr>logged := logged w1
                          @ [(LWarning, ''Could not verify/convert ONNX format: '' @ exn_str e)]\<rparr>)
      | (Inr u, w1) \<Rightarrow> (Inr (), w1))"
  by (simp add: ensure_single_file_onnx_def try_except_apply io_simps split: prod.splits sum.splits)

text \<open>The world \<^verbatim>\<open>ensure_single_file_onnx\<close> leaves.\<close>

definition normalized :: "('m, 's, 'x, 'p) env \<Rightarrow> string \<Rightarrow> world \<Rightarrow> world" where
  "normalized env p w = snd (ensure_single_file_onnx env p w)"

lemma ensure_single_file_onnx_returns:
  "ensure_single_file_onnx env p w = (Inr (), normalized env p w)"
  by (simp add: normalized_def ensure_single_file_onnx_body split: prod.splits sum.splits)

lemma io_write_apply:
  "io_write op w = (case op (files w) of Inl e \<Rightarrow> (Inl e, w) | Inr f \<Rightarrow> (Inr (), w\<lparr>files := f\<rparr>))"
  by (simp add: io_write_def io_bind_apply io_simps split: sum.splits)

text \<open>The world of the legacy path before the exporter is called.\<close>

definition legacy_started :: "('m, 's, 'x, 'p) env \<Rightarrow> world \<Rightarrow> world" where
  "legacy_started env w =
     w\<lparr>logged := logged w @ [(LInfo, ''Using torch.onnx.export() (legacy)'')]
          @ (if has_external_data_flag env then [(LInfo, ''Set use_external_data_format=False'')] else [])\<rparr>"

lemma legacy_export_apply:
  "legacy_export env m x p w =
     (case onnx_export env (legacy_args env m x p) (files (legacy_started env w)) of
        Inl e \<Rightarrow> (Inl e, legacy_started env w)
      | Inr f \<Rightarrow>
          (Inr (), normalized env p (legacy_started env w\<lparr>files := f\<rparr>)
                   \<lparr>logged := logged (normalized env p (legacy_started env w\<lparr>files := f\<rparr>))
                      @ [(LInfo, ''ONNX model exported via torch.onnx.export() to '' @ p)]\<rparr>))"
  by (simp add: legacy_export_def legacy_started_def io_bind_apply io_simps io_write_apply
      ensure_single_file_onnx_returns split: sum.splits)

text \<open>The legacy path raises only what the exporter call raises.\<close>

lemma legacy_export_Inl:
  "legacy_export env m x p w = (Inl e, w') \<Longrightarrow>
     \<exists>f. onnx_export env (legacy_args env m x p) f = Inl e"
  by (auto simp: legacy_export_apply split: sum.splits prod.splits)

text \<open>
  The world in which the modern attempt starts, and the world after the warning that
  follows its failure.
\<close>

definition started :: "world \<Rightarrow> world" where
  "started w = w\<lparr>logged := logged w @ [(LInfo, ''Starting ONNX export...'')]\<rparr>"

definition warned :: "exn \<Rightarrow> world \<Rightarrow> world" where
  "warned e w = w\<lparr>logged := logged w @ [(LWarning, dynamo_warning e)]\<rparr>"

lemma export_onnx_apply:
  "export_onnx env m x p w =
     (if has_dynamo_export env then
        (case modern_export env m x p (started w) of
           (Inl e, w1) \<Rightarrow> legacy_export env m x p (warned e w1)
         | (Inr u, w1) \<Rightarrow> (Inr (), w1))
      else legacy_export env m x p (started w))"
  by (simp add: export_onnx_def io_bind_apply io_simps try_except_apply started_def warned_def
      split: prod.splits sum.splits)

text \<open>
  Claim C3. When the modern exporter is available and its attempt raises, whatever the
  exception and the step that raised it, \<^verbatim>\<open>export_onnx\<close> logs the warning and continues
  as the legacy path does; when the attempt returns, \<^verbatim>\<open>export_onnx\<close> returns. An exception
  leaves \<^verbatim>\<open>export_onnx\<close> only when the modern exporter was absent or its attempt failed,
  and it is the exception raised by the call of \<^verbatim>\<open>torch.onnx.export\<close>.
\<close>

theorem export_onnx_fallback:
  "(has_dynamo_export env \<and> modern_export env m x p (started w) = (Inl e, w1)
      \<longrightarrow> export_onnx env m x p w = legacy_export env m x p (warned e w1)
          \<and> (LWarning, dynamo_warning e) \<in> set (logged (warned e w1)))
   \<and> (has_dynamo_export env \<and> modern_export env m x p (started w) = (Inr (), w1)
      \<longrightarrow> export_onnx env m x p w = (Inr (), w1))
   \<and> (export_onnx env m x p w = (Inl e, w') \<longrightarrow>
        (\<not> has_dynamo_export env \<or> (\<exists>e' w1. modern_export env m x p (started w) = (Inl e', w1)))
        \<and> (\<exists>f. onnx_export env (legacy_args env m x p) f = Inl e))"
proof (intro conjI impI)
  assume "has_dynamo_export env \<and> modern_export env m x p (started w) = (Inl e, w1)"
  then show "export_onnx env m x p w = legacy_export env m x p (warned e w1)"
    by (simp add: export_onnx_apply)
  show "(LWarning, dynamo_warning e) \<in> set (logged (warned e w1))"
    by (simp add: warned_def)
next
  assume "has_dynamo_export env \<and> modern_export env m x p (started w) = (Inr (), w1)"
  then show "export_onnx env m x p w = (Inr (), w1)"
    by (simp add: export_onnx_apply)
next
  assume a: "export_onnx env m x p w = (Inl e, w')"
  show "\<not> has_dynamo_export env \<or> (\<exists>e' w1. modern_export env m x p (started w) = (Inl e', w1))"
    using a by (auto simp: export_onnx_apply split: if_splits prod.splits sum.splits)
  from a have "\<exists>w0. legacy_export env m x p w0 = (Inl e, w')"
    by (auto simp: export_onnx_apply split: if_splits prod.splits sum.splits)
  then obtain w0 where "legacy_export env m x p w0 = (Inl e, w')" by blast
  then show "\<exists>f. onnx_export env (legacy_args env m x p) f = Inl e"
    by (rule legacy_export_Inl)
qed

subsection \<open>An environment for the examples\<close>

text \<open>
  A module that defines the callable \<open>Net\<close>, a callable stored under the name \<^verbatim>\<open>../m\<close>
  and the non-callable \<open>VERSION\<close>; three request bodies with their decoded documents (the
  decoder of the examples knows these three bodies only); storage that is reachable and
  holds every key; an installation whose modern exporter fails on every model, and whose
  legacy exporter writes a graph without tensors.
\<close>

definition demo_module :: "string module" where
  "demo_module = [''Net'' \<mapsto> Callable (\<lambda>kw. Inr ''Net''), ''../m'' \<mapsto> Callable (\<lambda>kw. Inr ''m''),
                  ''VERSION'' \<mapsto> NotCallable]"

definition demo_request :: "string \<Rightarrow> json" where
  "demo_request cls = JObj [(''python_path'', JStr ''net.py''), (''weights_path'', JStr ''net.pth''),
                            (''model_class'', JStr cls)]"

definition demo_body :: "string \<Rightarrow> string" where
  \<open>demo_body cls =
     ''{"python_path": "net.py", "weights_path": "net.pth", "model_class": "'' @ cls @ ''"}''\<close>

definition demo_loads :: "string \<Rightarrow> json result" where
  "demo_loads b =
     (if b = ''{}'' then Inr (JObj [])
      else if b = demo_body ''Net'' then Inr (demo_request ''Net'')
      else if b = demo_body ''../m'' then Inr (demo_request ''../m'')
      else Inl (JSONDecodeError ''Expecting value: line 1 column 1 (char 0)''))"

definition demo_env :: "(string, unit, unit, unit) env" where
  "demo_env =
     \<lparr>MINIO_ENDPOINT = ''172.16.6.62:9000'',
      MINIO_SECURE = False,
      json_loads = demo_loads,
      py_str = (\<lambda>j. ''None''),
      split_error = (\<lambda>j. AttributeError ''object has no attribute read''),
      mkdtemp = Inr ''/tmp/tmpq'',
      list_buckets = None,
      fget_object = (\<lambda>bucket key. Inr (Raw key)),
      bucket_exists = (\<lambda>bucket. Inr True),
      make_bucket = (\<lambda>bucket. None),
      fput_object = (\<lambda>bucket key c. None),
      importer = \<lparr>has_loader = (\<lambda>p. True), exec_module = (\<lambda>p c. Inr demo_module)\<rparr>,
      torch_load = (\<lambda>c. Inr ()),
      load_state_dict = (\<lambda>m s. Inr m),
      to_device_eval = (\<lambda>m. Inr m),
      randn = (\<lambda>shape. Inr ()),
      has_dynamo_export = True,
      export_options = None,
      dynamo_export = (\<lambda>m x. Inl (LibError ''Unsupported FX nodes'')),
      program_save = (\<lambda>p path f. Inr (f(path \<mapsto> Onnx []))),
      has_external_data_flag = False,
      onnx_export = (\<lambda>args f. Inr (f(ea_f args \<mapsto> Onnx []))),
      serialize = (\<lambda>ts. []),
      save_fault = (\<lambda>p. None),
      remove_fault = (\<lambda>p. None),
      check_model = (\<lambda>ts. None)\<rparr>"

definition demo_world :: world where
  "demo_world = \<lparr>files = Map.empty, logged = []\<rparr>"

subsection \<open>Responses of \<^verbatim>\<open>handle\<close> to malformed requests\<close>

text \<open>
  The fields \<^verbatim>\<open>execute\<close> reads by subscript, in the order it reads them, and the first of
  them a request lacks. \<open>failed\<close> is the world after the log line of the general handler.
\<close>

definition required_fields :: "string list" where
  "required_fields = [''python_path'', ''weights_path'', ''model_class'']"

definition first_missing :: "(string \<times> json) list \<Rightarrow> string option" where
  "first_missing kvs = find (\<lambda>k. map_of kvs k = None) required_fields"

definition failed :: "world \<Rightarrow> world" where
  "failed w = w\<lparr>logged := logged w @ [(LError, ''Unhandled exception'')]\<rparr>"

lemma handle_Inl:
  "handle_body env event w = (Inl e, w') \<Longrightarrow> \<forall>m. e \<noteq> JSONDecodeError m \<Longrightarrow>
     handle env event w = (\<lparr>statusCode = 500, body = Failure (exn_str e) None\<rparr>, failed w')"
  by (cases e) (simp_all add: handle_def failed_def)

text \<open>
  Claim C2, as amended. An invocation without a body, or with an empty one, raises
  \<^verbatim>\<open>ValueError("Empty request body")\<close>, which is not a \<^verbatim>\<open>JSONDecodeError\<close>: the response is
  the 500 of the general handler, with that message as the error.
\<close>

theorem handle_empty_body:
  "event = None \<or> event = Some [] \<Longrightarrow>
     handle env event w = (\<lparr>statusCode = 500, body = Failure ''Empty request body'' None\<rparr>, failed w)"
proof -
  assume "event = None \<or> event = Some []"
  then have "handle_body env event w = (Inl (ValueError ''Empty request body''), w)"
    by (auto simp: handle_body_def io_bind_apply io_simps)
  from handle_Inl[OF this] show ?thesis by simp
qed

text \<open>C2 (amended) in the environment of the examples.\<close>

theorem handle_empty_body_witness:
  "handle demo_env None demo_world
     = (\<lparr>statusCode = 500, body = Failure ''Empty request body'' None\<rparr>, failed demo_world)
   \<and> handle demo_env (Some []) demo_world
     = (\<lparr>statusCode = 500, body = Failure ''Empty request body'' None\<rparr>, failed demo_world)"
  using handle_empty_body[of None demo_env demo_world]
        handle_empty_body[of "Some []" demo_env demo_world]
  by simp

text \<open>Claim C2 as stated fails: the status of the response to an empty body is 500, not 400.\<close>

theorem handle_empty_body_not_400:
  "statusCode (fst (handle demo_env None demo_world)) = 500
   \<and> statusCode (fst (handle demo_env (Some []) demo_world)) = 500"
  by code_simp

lemma execute_missing:
  "first_missing kvs = Some k \<Longrightarrow> execute env (JObj kvs) w = (Inl (KeyError k), w)"
  by (auto simp: first_missing_def required_fields_def execute_def subscript_def io_bind_apply
      io_simps split: if_splits option.splits)

text \<open>
  Claim C1, as amended. A body that decodes to an object lacking one of the fields
  \<^verbatim>\<open>python_path\<close>, \<^verbatim>\<open>weights_path\<close>, \<^verbatim>\<open>model_class\<close> makes the subscript raise \<^verbatim>\<open>KeyError\<close>
  for the first field missing: the response is the 500 of the general handler, its error
  the quoted name of that field.
\<close>

theorem handle_missing_field:
  assumes "b \<noteq> []" and "json_loads env b = Inr (JObj kvs)"
    and "k \<in> set required_fields" and "map_of kvs k = None"
  shows "\<exists>k'. first_missing kvs = Some k'
           \<and> handle env (Some b) w = (\<lparr>statusCode = 500, body = Failure (quoted k') None\<rparr>, failed w)"
proof -
  from assms(3,4) obtain k' where f: "first_missing kvs = Some k'"
    by (cases "first_missing kvs") (auto simp: first_missing_def find_None_iff)
  have "handle_body env (Some b) w = (Inl (KeyError k'), w)"
    using assms(1,2) execute_missing[OF f]
    by (simp add: handle_body_def io_bind_apply io_simps)
  from handle_Inl[OF this] f show ?thesis by simp
qed

text \<open>C1 (amended) at the body \<^verbatim>\<open>{}\<close>.\<close>

theorem handle_missing_field_witness:
  "json_loads demo_env ''{}'' = Inr (JObj [])
   \<and> handle demo_env (Some ''{}'') demo_world
       = (\<lparr>statusCode = 500, body = Failure (quoted ''python_path'') None\<rparr>, failed demo_world)"
proof -
  have l: "json_loads demo_env ''{}'' = Inr (JObj [])" by (simp add: demo_env_def demo_loads_def)
  have k: "''python_path'' \<in> set required_fields" by (simp add: required_fields_def)
  have f: "first_missing [] = Some ''python_path''" by (simp add: first_missing_def required_fields_def)
  from handle_missing_field[of "''{}''" demo_env "[]" "''python_path''" demo_world] l k f
  show ?thesis by auto
qed

text \<open>Claim C1 as stated fails: the body \<^verbatim>\<open>{}\<close> is valid JSON without the fields, and the status is 500.\<close>

theorem handle_missing_field_not_400:
  "json_loads demo_env ''{}'' = Inr (JObj [])
   \<and> statusCode (fst (handle demo_env (Some ''{}'') demo_world)) = 500"
  by code_simp

subsection \<open>The export fallback in the environment of the examples\<close>

text \<open>
  C3 in the environment of the examples, where the modern exporter fails and the legacy
  one succeeds, and in a variant where the legacy exporter fails as well.
\<close>

theorem export_onnx_fallback_witness:
  "modern_export demo_env ''Net'' () ''/tmp/tmpq/Net.onnx'' (started demo_world)
     = (Inl (LibError ''Unsupported FX nodes''),
        \<lparr>files = Map.empty,
         logged = [(LInfo, ''Starting ONNX export...''), (LInfo, ''Attempting torch.onnx.dynamo_export()'')]\<rparr>)
   \<and> export_onnx demo_env ''Net'' () ''/tmp/tmpq/Net.onnx'' demo_world
     = legacy_export demo_env ''Net'' () ''/tmp/tmpq/Net.onnx''
         (warned (LibError ''Unsupported FX nodes'')
           \<lparr>files = Map.empty,
            logged = [(LInfo, ''Starting ONNX export...''), (LInfo, ''Attempting torch.onnx.dynamo_export()'')]\<rparr>)
   \<and> fst (export_onnx demo_env ''Net'' () ''/tmp/tmpq/Net.onnx'' demo_world) = Inr ()
   \<and> fst (export_onnx (demo_env\<lparr>onnx_export := (\<lambda>args f. Inl (LibError ''Unsupported operator''))\<rparr>)
            ''Net'' () ''/tmp/tmpq/Net.onnx'' demo_world) = Inl (LibError ''Unsupported operator'')
   \<and> (\<exists>f. onnx_export (demo_env\<lparr>onnx_export := (\<lambda>args f. Inl (LibError ''Unsupported operator''))\<rparr>)
            (legacy_args (demo_env\<lparr>onnx_export := (\<lambda>args f. Inl (LibError ''Unsupported operator''))\<rparr>)
               ''Net'' () ''/tmp/tmpq/Net.onnx'') f = Inl (LibError ''Unsupported operator''))"
proof -
  let ?w1 = "\<lparr>files = Map.empty,
         logged = [(LInfo, ''Starting ONNX export...''), (LInfo, ''Attempting torch.onnx.dynamo_export()'')]\<rparr>"
  let ?e = "LibError ''Unsupported FX nodes''"
  let ?env2 = "demo_env\<lparr>onnx_export := (\<lambda>args f. Inl (LibError ''Unsupported operator''))\<rparr>"
  have d: "has_dynamo_export demo_env" by (simp add: demo_env_def)
  have m: "modern_export demo_env ''Net'' () ''/tmp/tmpq/Net.onnx'' (started demo_world) = (Inl ?e, ?w1)"
    by (simp add: modern_export_def demo_env_def demo_world_def started_def io_bind_apply io_simps
        io_check_apply)
  have a: "export_onnx demo_env ''Net'' () ''/tmp/tmpq/Net.onnx'' demo_world
     = legacy_export demo_env ''Net'' () ''/tmp/tmpq/Net.onnx'' (warned ?e ?w1)"
    using export_onnx_fallback[of demo_env "''Net''" "()" "''/tmp/tmpq/Net.onnx''" demo_world ?e ?w1] d m
    by blast
  have b: "fst (export_onnx demo_env ''Net'' () ''/tmp/tmpq/Net.onnx'' demo_world) = Inr ()"
  proof -
    have "fst (legacy_export demo_env ''Net'' () ''/tmp/tmpq/Net.onnx'' (warned ?e ?w1)) = Inr ()"
      by (simp add: legacy_export_apply demo_env_def)
    with a show ?thesis by simp
  qed
  obtain w' where c: "export_onnx ?env2 ''Net'' () ''/tmp/tmpq/Net.onnx'' demo_world
      = (Inl (LibError ''Unsupported operator''), w')"
    by (simp add: export_onnx_apply modern_export_def demo_env_def demo_world_def started_def
        io_bind_apply io_simps io_check_apply legacy_export_apply)
  have e: "\<exists>f. onnx_export ?env2 (legacy_args ?env2 ''Net'' () ''/tmp/tmpq/Net.onnx'') f
             = Inl (LibError ''Unsupported operator'')"
    using export_onnx_fallback[of ?env2 "''Net''" "()" "''/tmp/tmpq/Net.onnx''" demo_world
        "LibError ''Unsupported operator''" _ w'] c
    by blast
  from m a b c e show ?thesis by simp
qed

subsection \<open>The effect of \<^verbatim>\<open>ensure_single_file_onnx\<close> on the files\<close>















subsection \<open>What a successful request implies\<close>























subsection \<open>The download URL\<close>

















end
